theory Spec2Isabelle
  imports Main "HOL-Library.Word"
begin

section \<open>The C++ boundary: exceptions, outcomes, C strings\<close>

text \<open>
  The wrapper (\<^verbatim>\<open>src/wrapper/gen.cpp\<close>, \<^verbatim>\<open>src/wrapper/utils.hpp\<close>) is a flat
  C ABI over the giac computer-algebra library. The library itself is not part of the
  sources: every library function the wrapper calls is a parameter of the wrapper
  function that calls it. Its result has type \<open>exn + 'a\<close> (\<open>Inl\<close>: the call throws),
  paired with what the call leaves in an argument it may write (the context of the
  parser, the quotient reference of \<^verbatim>\<open>irem\<close>).

  A thrown object is either a \<^verbatim>\<open>std::runtime_error\<close> (or a class derived from it),
  carried with the text of \<^verbatim>\<open>what()\<close>, or an object of any other type
  (\<^verbatim>\<open>std::bad_alloc\<close>, \<^verbatim>\<open>std::logic_error\<close>, ...). The distinction is the one the
  handler \<^verbatim>\<open>catch (std::runtime_error & e)\<close> of \<^verbatim>\<open>SAFE_VOID_CALL\<close> makes.
\<close>

datatype exn = Runtime_error string | Other_exception string

text \<open>
  What a call of a wrapper function does: it returns a value, an exception leaves the
  function, or it dereferences a handle that refers to no live object (undefined
  behaviour in C++).
\<close>

datatype 'a outcome = Returns 'a | Throws exn | Undefined

text \<open>\<^verbatim>\<open>typedef const char *result\<close>: \<open>None\<close> is \<^verbatim>\<open>NULL\<close>, \<open>Some s\<close> a
  pointer to a freshly allocated string with contents \<open>s\<close>.\<close>

type_synonym result = "string option"

text \<open>\<^verbatim>\<open>strcpy\<close> copies up to the first NUL byte; \<^verbatim>\<open>strlen\<close> counts up to it.\<close>

definition strcpy :: "string \<Rightarrow> string" where
  "strcpy s = takeWhile (\<lambda>c. c \<noteq> CHR 0x00) s"

text \<open>
  \<^verbatim>\<open>char *string_to_c(std::string s)\<close>: allocates \<^verbatim>\<open>s.length() + 1\<close> bytes and
  copies \<^verbatim>\<open>s.c_str()\<close> with \<^verbatim>\<open>strcpy\<close>.
\<close>

definition string_to_c :: "string \<Rightarrow> string" where
  "string_to_c s = strcpy s"

fun of_call :: "exn + 'a \<Rightarrow> 'a outcome" where
  "of_call (Inl e) = Throws e"
| "of_call (Inr v) = Returns v"

fun and_then :: "'a outcome \<Rightarrow> ('a \<Rightarrow> 'b outcome) \<Rightarrow> 'b outcome" where
  "and_then (Returns v) f = f v"
| "and_then (Throws e) f = Throws e"
| "and_then Undefined f = Undefined"

subsection \<open>The macros of utils.hpp\<close>

text \<open>
  \<^verbatim>\<open>SAFE_VOID_CALL(res_code)\<close> is
  \<^verbatim>\<open>try { res_code return NULL; } catch (std::runtime_error & e) { ... return str; }\<close>
  where \<^verbatim>\<open>str\<close> is a copy of \<^verbatim>\<open>e.what()\<close>. The body is a computation on a state
  \<open>'s\<close>; a thrown object that is not a \<^verbatim>\<open>std::runtime_error\<close> matches no handler and
  leaves the function.
\<close>

definition SAFE_VOID_CALL ::
  "('s \<Rightarrow> unit outcome \<times> 's) \<Rightarrow> 's \<Rightarrow> result outcome \<times> 's" where
  "SAFE_VOID_CALL res_code s =
     (case res_code s of
        (Returns u, s') \<Rightarrow> (Returns None, s')
      | (Throws (Runtime_error m), s') \<Rightarrow> (Returns (Some (strcpy m)), s')
      | (Throws (Other_exception m), s') \<Rightarrow> (Throws (Other_exception m), s')
      | (Undefined, s') \<Rightarrow> (Undefined, s'))"

text \<open>
  \<^verbatim>\<open>SAFE_CALL(res_code)\<close> is \<^verbatim>\<open>SAFE_VOID_CALL(*res = res_code;)\<close>: the expression
  is evaluated, then its value is stored through \<^verbatim>\<open>res\<close>. The store is the
  parameter \<open>assign\<close>, since \<^verbatim>\<open>res\<close> is a \<^verbatim>\<open>giac::gen *\<close>, an \<^verbatim>\<open>int *\<close>, a
  \<^verbatim>\<open>bool *\<close> or an \<^verbatim>\<open>int8_t *\<close> depending on the function.
\<close>

definition SAFE_CALL ::
  "('a \<Rightarrow> 's \<Rightarrow> unit outcome \<times> 's) \<Rightarrow> ('s \<Rightarrow> 'a outcome \<times> 's) \<Rightarrow> 's
     \<Rightarrow> result outcome \<times> 's" where
  "SAFE_CALL assign res_code =
     SAFE_VOID_CALL (\<lambda>s. case res_code s of
        (Returns v, s') \<Rightarrow> assign v s'
      | (Throws e, s') \<Rightarrow> (Throws e, s')
      | (Undefined, s') \<Rightarrow> (Undefined, s'))"

text \<open>A \<^verbatim>\<open>std::runtime_error\<close> leaves the function.\<close>

fun unwinds_runtime_error :: "'a outcome \<Rightarrow> bool" where
  "unwinds_runtime_error (Throws (Runtime_error m)) = True"
| "unwinds_runtime_error (Throws (Other_exception m)) = False"
| "unwinds_runtime_error (Returns v) = False"
| "unwinds_runtime_error Undefined = False"

section \<open>Value handles\<close>

text \<open>
  A \<^verbatim>\<open>giac::gen *\<close> handle is an address; the store maps an address to the value
  of the live object there (\<open>None\<close>: no live object). \<open>'g\<close> is the library's value
  type \<^verbatim>\<open>giac::gen\<close>. \<^verbatim>\<open>new\<close> returns an address that holds no live object: here the
  first free one.
\<close>

type_synonym 'g heap = "'g option list"

definition cell :: "'g heap \<Rightarrow> nat \<Rightarrow> 'g option" where
  "cell h p = (if p < length h then h ! p else None)"

definition deref :: "'g heap \<Rightarrow> nat \<Rightarrow> 'g outcome" where
  "deref h p = (case cell h p of Some v \<Rightarrow> Returns v | None \<Rightarrow> Undefined)"

fun fresh :: "'g heap \<Rightarrow> nat" where
  "fresh [] = 0"
| "fresh (None # h) = 0"
| "fresh (Some v # h) = Suc (fresh h)"

definition new_gen :: "'g \<Rightarrow> 'g heap \<Rightarrow> nat \<times> 'g heap" where
  "new_gen v h =
     (let p = fresh h
      in (p, if p < length h then h[p := Some v] else h @ [Some v]))"

definition delete_gen :: "nat \<Rightarrow> 'g heap \<Rightarrow> unit outcome \<times> 'g heap" where
  "delete_gen p h =
     (case cell h p of
        None \<Rightarrow> (Undefined, h)
      | Some v \<Rightarrow> (Returns (), h[p := None]))"

text \<open>
  A local variable of type \<^verbatim>\<open>giac::gen\<close> lives on the stack, at an address that no
  handle of the caller refers to, live or dangling: here an address past the end of
  the store and different from every pointer argument \<open>ps\<close> of the function.
\<close>

definition local_gen :: "'g \<Rightarrow> nat list \<Rightarrow> 'g heap \<Rightarrow> nat \<times> 'g heap" where
  "local_gen v ps h =
     (let p = fold max (map Suc ps) (length h)
      in (p, h @ replicate (p - length h) None @ [Some v]))"

text \<open>\<^verbatim>\<open>*res = v\<close> for a \<^verbatim>\<open>giac::gen *res\<close>.\<close>

definition assign_gen :: "nat \<Rightarrow> 'g \<Rightarrow> 'g heap \<Rightarrow> unit outcome \<times> 'g heap" where
  "assign_gen res v h =
     (case cell h res of
        None \<Rightarrow> (Undefined, h)
      | Some old \<Rightarrow> (Returns (), h[res := Some v]))"

text \<open>An expression that reads the store and leaves it as it is.\<close>

definition reading :: "('s \<Rightarrow> 'a outcome) \<Rightarrow> 's \<Rightarrow> 'a outcome \<times> 's" where
  "reading e s = (e s, s)"

section \<open>Entry points of gen.cpp\<close>

text \<open>
  Each entry point takes the library functions it calls as its first arguments, then
  the arguments of the C function in the source's order, then the state it works on.
  A \<^verbatim>\<open>giac::context\<close> is a value of type \<open>'c\<close>. Allocation failure is not modelled.
\<close>

subsection \<open>Allocation\<close>

text \<open>\<^verbatim>\<open>giacrs_gen_allocate() { return new giac::gen(); }\<close>, with \<open>gen0\<close> the
  default-constructed value.\<close>

definition giacrs_gen_allocate :: "'g \<Rightarrow> 'g heap \<Rightarrow> nat outcome \<times> 'g heap" where
  "giacrs_gen_allocate gen0 h = (case new_gen gen0 h of (p, h') \<Rightarrow> (Returns p, h'))"

text \<open>
  \<^verbatim>\<open>giacrs_gen_from_str(char *s, const giac::context *ctx, giac::gen *res)\<close>.
  The constructor \<^verbatim>\<open>giac::gen(s, ctx)\<close> parses \<open>s\<close> and records its diagnostics in
  the context, so it returns the context too; \<^verbatim>\<open>giac::eval\<close> likewise. The
  constructor call and the first assignment are outside the \<^verbatim>\<open>try\<close> block.
\<close>

definition giacrs_gen_from_str ::
  "(string \<Rightarrow> 'c \<Rightarrow> (exn + 'g) \<times> 'c) \<Rightarrow> ('c \<Rightarrow> int) \<Rightarrow> ('c \<Rightarrow> string)
     \<Rightarrow> ('g \<Rightarrow> 'c \<Rightarrow> (exn + 'g) \<times> 'c)
     \<Rightarrow> string \<Rightarrow> 'c \<Rightarrow> nat \<Rightarrow> 'g heap \<Rightarrow> result outcome \<times> 'g heap \<times> 'c" where
  "giacrs_gen_from_str giac_gen first_error_line parser_error giac_eval s ctx res h =
     (case giac_gen s ctx of
        (Inl e, ctx1) \<Rightarrow> (Throws e, h, ctx1)
      | (Inr g, ctx1) \<Rightarrow>
          (case assign_gen res g h of
             (Returns u, h1) \<Rightarrow>
               if first_error_line ctx1 \<noteq> 0
               then (Returns (Some (string_to_c (parser_error ctx1))), h1, ctx1)
               else SAFE_CALL
                      (\<lambda>v (h2, c). case assign_gen res v h2 of (out, h3) \<Rightarrow> (out, h3, c))
                      (\<lambda>(h2, c). case deref h2 res of
                           Returns x \<Rightarrow>
                             (case giac_eval x c of (r, c') \<Rightarrow> (of_call r, h2, c'))
                         | Throws e \<Rightarrow> (Throws e, h2, c)
                         | Undefined \<Rightarrow> (Undefined, h2, c))
                      (h1, ctx1)
           | (Throws e, h1) \<Rightarrow> (Throws e, h1, ctx1)
           | (Undefined, h1) \<Rightarrow> (Undefined, h1, ctx1)))"

text \<open>\<^verbatim>\<open>giacrs_gen_factorial(unsigned long i) { return new giac::gen(giac::factorial(i)); }\<close>
  (\<^verbatim>\<open>unsigned long\<close> has 64 bits on the LP64 targets of the library).\<close>

definition giacrs_gen_factorial ::
  "(64 word \<Rightarrow> exn + 'g) \<Rightarrow> 64 word \<Rightarrow> 'g heap \<Rightarrow> nat outcome \<times> 'g heap" where
  "giacrs_gen_factorial giac_factorial i h =
     (case giac_factorial i of
        Inl e \<Rightarrow> (Throws e, h)
      | Inr v \<Rightarrow> (case new_gen v h of (p, h') \<Rightarrow> (Returns p, h')))"

text \<open>\<^verbatim>\<open>giacrs_free_gen(giac::gen *e) { delete e; }\<close>\<close>

definition giacrs_free_gen :: "nat \<Rightarrow> 'g heap \<Rightarrow> unit outcome \<times> 'g heap" where
  "giacrs_free_gen e h = delete_gen e h"

text \<open>\<^verbatim>\<open>giacrs_gen_clone(giac::gen *e) { return new giac::gen(*e); }\<close>: the new object
  holds the value of \<^verbatim>\<open>*e\<close>.\<close>

definition giacrs_gen_clone :: "nat \<Rightarrow> 'g heap \<Rightarrow> nat outcome \<times> 'g heap" where
  "giacrs_gen_clone e h =
     (case deref h e of
        Returns v \<Rightarrow> (case new_gen v h of (p, h') \<Rightarrow> (Returns p, h'))
      | Throws x \<Rightarrow> (Throws x, h)
      | Undefined \<Rightarrow> (Undefined, h))"

subsection \<open>Conversion\<close>

text \<open>\<^verbatim>\<open>giacrs_gen_to_str(giac::gen *e) { return string_to_c(e->print()); }\<close>: no
  \<^verbatim>\<open>try\<close> block; the store is only read.\<close>

definition giacrs_gen_to_str :: "('g \<Rightarrow> exn + string) \<Rightarrow> nat \<Rightarrow> 'g heap \<Rightarrow> string outcome" where
  "giacrs_gen_to_str giac_print e h =
     and_then (deref h e) (\<lambda>v.
     and_then (of_call (giac_print v)) (\<lambda>s. Returns (string_to_c s)))"

text \<open>\<^verbatim>\<open>giacrs_gen_to_int(giac::gen *e, int *res) { SAFE_CALL(e->to_int()); }\<close>: the
  state is the \<^verbatim>\<open>int\<close> that \<^verbatim>\<open>res\<close> points to.\<close>

definition giacrs_gen_to_int ::
  "('g \<Rightarrow> exn + 32 word) \<Rightarrow> nat \<Rightarrow> 'g heap \<Rightarrow> 32 word \<Rightarrow> result outcome \<times> 32 word" where
  "giacrs_gen_to_int giac_to_int e h =
     SAFE_CALL (\<lambda>v slot. (Returns (), v))
       (reading (\<lambda>slot. and_then (deref h e) (\<lambda>x. of_call (giac_to_int x))))"

subsection \<open>Methods\<close>

definition giacrs_gen_gcd ::
  "('g \<Rightarrow> 'g \<Rightarrow> 'c \<Rightarrow> exn + 'g) \<Rightarrow> nat \<Rightarrow> nat \<Rightarrow> nat \<Rightarrow> 'c \<Rightarrow> 'g heap
     \<Rightarrow> result outcome \<times> 'g heap" where
  "giacrs_gen_gcd giac_gcd a b res ctx =
     SAFE_CALL (assign_gen res)
       (reading (\<lambda>h. and_then (deref h a) (\<lambda>x.
                     and_then (deref h b) (\<lambda>y. of_call (giac_gcd x y ctx)))))"

definition giacrs_gen_lcm ::
  "('g \<Rightarrow> 'g \<Rightarrow> exn + 'g) \<Rightarrow> nat \<Rightarrow> nat \<Rightarrow> nat \<Rightarrow> 'g heap \<Rightarrow> result outcome \<times> 'g heap" where
  "giacrs_gen_lcm giac_lcm a b res =
     SAFE_CALL (assign_gen res)
       (reading (\<lambda>h. and_then (deref h a) (\<lambda>x.
                     and_then (deref h b) (\<lambda>y. of_call (giac_lcm x y)))))"

text \<open>
  \<^verbatim>\<open>giacrs_gen_iquorem(a, b, q, res) { SAFE_CALL(giac::irem(*a, *b, *q)); }\<close>:
  \<^verbatim>\<open>giac::irem\<close> takes \<^verbatim>\<open>*q\<close> by reference and returns the remainder. The library
  function gets the value of \<^verbatim>\<open>*q\<close> and gives back the value it leaves there,
  whether it returns or throws. (When \<open>q\<close> is the same handle as \<open>a\<close> or \<open>b\<close> the
  library function would see its inputs change while it runs, which passing values
  does not describe; the theorems below keep \<open>q\<close> apart from \<open>a\<close> and \<open>b\<close>.)
\<close>

definition giacrs_gen_iquorem ::
  "('g \<Rightarrow> 'g \<Rightarrow> 'g \<Rightarrow> (exn + 'g) \<times> 'g) \<Rightarrow> nat \<Rightarrow> nat \<Rightarrow> nat \<Rightarrow> nat \<Rightarrow> 'g heap
     \<Rightarrow> result outcome \<times> 'g heap" where
  "giacrs_gen_iquorem giac_irem a b q res =
     SAFE_CALL (assign_gen res)
       (\<lambda>h. case deref h a of
          Returns x \<Rightarrow>
            (case deref h b of
               Returns y \<Rightarrow>
                 (case deref h q of
                    Returns z \<Rightarrow>
                      (case giac_irem x y z of (r, z') \<Rightarrow> (of_call r, h[q := Some z']))
                  | Throws e \<Rightarrow> (Throws e, h)
                  | Undefined \<Rightarrow> (Undefined, h))
             | Throws e \<Rightarrow> (Throws e, h)
             | Undefined \<Rightarrow> (Undefined, h))
        | Throws e \<Rightarrow> (Throws e, h)
        | Undefined \<Rightarrow> (Undefined, h))"

text \<open>
  \<^verbatim>\<open>giacrs_gen_irem(a, b, res) { giac::gen q; return giacrs_gen_iquorem(a, b, &q, res); }\<close>:
  the local \<^verbatim>\<open>q\<close> is a default-constructed object at a stack address of its own,
  gone when the function is left.
\<close>

definition giacrs_gen_irem ::
  "('g \<Rightarrow> 'g \<Rightarrow> 'g \<Rightarrow> (exn + 'g) \<times> 'g) \<Rightarrow> 'g \<Rightarrow> nat \<Rightarrow> nat \<Rightarrow> nat \<Rightarrow> 'g heap
     \<Rightarrow> result outcome \<times> 'g heap" where
  "giacrs_gen_irem giac_irem gen0 a b res h =
     (case local_gen gen0 [a, b, res] h of (q, h1) \<Rightarrow>
        (case giacrs_gen_iquorem giac_irem a b q res h1 of (out, h2) \<Rightarrow>
           (out, h2[q := None])))"

text \<open>
  The predicates store through an \<^verbatim>\<open>int8_t *res\<close>. The library functions return a C
  \<^verbatim>\<open>int\<close> (32 bits); the assignment narrows it to 8 bits, keeping the low byte.
  The state is the byte that \<^verbatim>\<open>res\<close> points to.
\<close>

definition giacrs_gen_is_pseudoprime ::
  "('g \<Rightarrow> exn + 32 word) \<Rightarrow> nat \<Rightarrow> 'g heap \<Rightarrow> 8 word \<Rightarrow> result outcome \<times> 8 word" where
  "giacrs_gen_is_pseudoprime is_probab_prime_p a h =
     SAFE_CALL (\<lambda>v slot. (Returns (), ucast v))
       (reading (\<lambda>slot. and_then (deref h a) (\<lambda>x. of_call (is_probab_prime_p x))))"

text \<open>
  \<^verbatim>\<open>giacrs_gen_nthprime\<close> writes the \<^verbatim>\<open>try\<close> block out, with the handler of
  \<^verbatim>\<open>SAFE_VOID_CALL\<close>; its body stores the library's result, then throws a
  \<^verbatim>\<open>std::runtime_error\<close> of its own when the stored value is undefined.
\<close>

definition nthprime_message :: string where
  "nthprime_message = ''Failed to compute nthprime, argument is too big''"

definition giacrs_gen_nthprime ::
  "('g \<Rightarrow> 'c \<Rightarrow> exn + 'g) \<Rightarrow> ('g \<Rightarrow> bool) \<Rightarrow> nat \<Rightarrow> nat \<Rightarrow> 'c \<Rightarrow> 'g heap
     \<Rightarrow> result outcome \<times> 'g heap" where
  "giacrs_gen_nthprime ithprime is_undef a res ctx =
     SAFE_VOID_CALL
       (\<lambda>h. case and_then (deref h a) (\<lambda>x. of_call (ithprime x ctx)) of
          Returns v \<Rightarrow>
            (case assign_gen res v h of
               (Returns u, h1) \<Rightarrow>
                 if is_undef v then (Throws (Runtime_error nthprime_message), h1)
                 else (Returns (), h1)
             | (Throws e, h1) \<Rightarrow> (Throws e, h1)
             | (Undefined, h1) \<Rightarrow> (Undefined, h1))
        | Throws e \<Rightarrow> (Throws e, h)
        | Undefined \<Rightarrow> (Undefined, h))"

definition giacrs_gen_legendre ::
  "('g \<Rightarrow> 'g \<Rightarrow> exn + 32 word) \<Rightarrow> nat \<Rightarrow> nat \<Rightarrow> 'g heap \<Rightarrow> 8 word
     \<Rightarrow> result outcome \<times> 8 word" where
  "giacrs_gen_legendre giac_legendre a b h =
     SAFE_CALL (\<lambda>v slot. (Returns (), ucast v))
       (reading (\<lambda>slot. and_then (deref h a) (\<lambda>x.
                        and_then (deref h b) (\<lambda>y. of_call (giac_legendre x y)))))"

definition giacrs_gen_jacobi ::
  "('g \<Rightarrow> 'g \<Rightarrow> exn + 32 word) \<Rightarrow> nat \<Rightarrow> nat \<Rightarrow> 'g heap \<Rightarrow> 8 word
     \<Rightarrow> result outcome \<times> 8 word" where
  "giacrs_gen_jacobi giac_jacobi a b h =
     SAFE_CALL (\<lambda>v slot. (Returns (), ucast v))
       (reading (\<lambda>slot. and_then (deref h a) (\<lambda>x.
                        and_then (deref h b) (\<lambda>y. of_call (giac_jacobi x y)))))"

subsection \<open>Operators\<close>

text \<open>\<^verbatim>\<open>giacrs_gen_add(giac::gen *res, giac::gen *f) { SAFE_CALL(*res + *f) }\<close>, and the
  same with \<^verbatim>\<open>-\<close>, \<^verbatim>\<open>*\<close>, \<^verbatim>\<open>/\<close>. \<open>operator_call\<close> is the expression
  \<^verbatim>\<open>*res op *f\<close>.\<close>

definition operator_call ::
  "('g \<Rightarrow> 'g \<Rightarrow> exn + 'g) \<Rightarrow> nat \<Rightarrow> nat \<Rightarrow> 'g heap \<Rightarrow> 'g outcome" where
  "operator_call op res f h =
     and_then (deref h res) (\<lambda>x. and_then (deref h f) (\<lambda>y. of_call (op x y)))"

definition giacrs_gen_add ::
  "('g \<Rightarrow> 'g \<Rightarrow> exn + 'g) \<Rightarrow> nat \<Rightarrow> nat \<Rightarrow> 'g heap \<Rightarrow> result outcome \<times> 'g heap" where
  "giacrs_gen_add giac_plus res f =
     SAFE_CALL (assign_gen res) (reading (operator_call giac_plus res f))"

definition giacrs_gen_sub ::
  "('g \<Rightarrow> 'g \<Rightarrow> exn + 'g) \<Rightarrow> nat \<Rightarrow> nat \<Rightarrow> 'g heap \<Rightarrow> result outcome \<times> 'g heap" where
  "giacrs_gen_sub giac_minus res f =
     SAFE_CALL (assign_gen res) (reading (operator_call giac_minus res f))"

definition giacrs_gen_mul ::
  "('g \<Rightarrow> 'g \<Rightarrow> exn + 'g) \<Rightarrow> nat \<Rightarrow> nat \<Rightarrow> 'g heap \<Rightarrow> result outcome \<times> 'g heap" where
  "giacrs_gen_mul giac_times res f =
     SAFE_CALL (assign_gen res) (reading (operator_call giac_times res f))"

definition giacrs_gen_div ::
  "('g \<Rightarrow> 'g \<Rightarrow> exn + 'g) \<Rightarrow> nat \<Rightarrow> nat \<Rightarrow> 'g heap \<Rightarrow> result outcome \<times> 'g heap" where
  "giacrs_gen_div giac_divide res f =
     SAFE_CALL (assign_gen res) (reading (operator_call giac_divide res f))"

section \<open>Calling sequences of the host\<close>

text \<open>
  The host mutates a value by a sequence of calls of the four operators on one
  handle, each with a second operand of its choice. A call that returns, with
  \<^verbatim>\<open>NULL\<close> or with an error string, is followed by the next one; the sequence ends when
  an exception leaves a call.
\<close>

datatype operator = Add | Sub | Mul | Div

fun apply_operator ::
  "('g \<Rightarrow> 'g \<Rightarrow> exn + 'g) \<times> ('g \<Rightarrow> 'g \<Rightarrow> exn + 'g) \<times> ('g \<Rightarrow> 'g \<Rightarrow> exn + 'g) \<times> ('g \<Rightarrow> 'g \<Rightarrow> exn + 'g)
     \<Rightarrow> operator \<Rightarrow> nat \<Rightarrow> nat \<Rightarrow> 'g heap \<Rightarrow> result outcome \<times> 'g heap" where
  "apply_operator (giac_plus, giac_minus, giac_times, giac_divide) Add res f h =
     giacrs_gen_add giac_plus res f h"
| "apply_operator (giac_plus, giac_minus, giac_times, giac_divide) Sub res f h =
     giacrs_gen_sub giac_minus res f h"
| "apply_operator (giac_plus, giac_minus, giac_times, giac_divide) Mul res f h =
     giacrs_gen_mul giac_times res f h"
| "apply_operator (giac_plus, giac_minus, giac_times, giac_divide) Div res f h =
     giacrs_gen_div giac_divide res f h"

fun mutate ::
  "('g \<Rightarrow> 'g \<Rightarrow> exn + 'g) \<times> ('g \<Rightarrow> 'g \<Rightarrow> exn + 'g) \<times> ('g \<Rightarrow> 'g \<Rightarrow> exn + 'g) \<times> ('g \<Rightarrow> 'g \<Rightarrow> exn + 'g)
     \<Rightarrow> nat \<Rightarrow> (operator \<times> nat) list \<Rightarrow> 'g heap \<Rightarrow> 'g heap" where
  "mutate ops res [] h = h"
| "mutate ops res ((opr, f) # calls) h =
     (case apply_operator ops opr res f h of
        (Returns r, h') \<Rightarrow> mutate ops res calls h'
      | (Throws e, h') \<Rightarrow> h'
      | (Undefined, h') \<Rightarrow> h')"

section \<open>What the specification says of the library\<close>

text \<open>
  The numeric results are the library's. What the specification says of them is stated
  here as conditions on the library functions, over a reading \<open>as_int\<close> of a library
  value as the integer it stands for (\<open>None\<close>: not an integer).
\<close>

text \<open>Decimal digits of an integer, most significant first, \<open>-\<close> in front of a
  negative one.\<close>

definition digit_char :: "nat \<Rightarrow> char" where
  "digit_char d = ''0123456789'' ! d"

function decimal_nat :: "nat \<Rightarrow> string" where
  "decimal_nat n =
     (if n < 10 then [digit_char n] else decimal_nat (n div 10) @ [digit_char (n mod 10)])"
  by pat_completeness auto
termination
  by (relation "measure (\<lambda>n. n)") auto

declare decimal_nat.simps [simp del]

definition decimal :: "int \<Rightarrow> string" where
  "decimal k = (if k < 0 then CHR ''-'' # decimal_nat (nat (- k)) else decimal_nat (nat k))"

text \<open>
  Modelled from the spec: \<^verbatim>\<open>giac::irem(a, b, q)\<close>, which is not in the sources.
  ``\<^verbatim>\<open>iquorem(a,b)\<close> produces quotient q and remainder r such that
  \<^verbatim>\<open>a == b*q + r\<close> and \<^verbatim>\<open>0 <= r < |b|\<close>'': for integers \<open>x\<close> and \<open>y \<noteq> 0\<close> the library
  function returns the remainder and leaves the quotient in its third argument.
\<close>

definition irem_convention ::
  "('g \<Rightarrow> 'g \<Rightarrow> 'g \<Rightarrow> (exn + 'g) \<times> 'g) \<Rightarrow> ('g \<Rightarrow> int option) \<Rightarrow> bool" where
  "irem_convention giac_irem as_int \<longleftrightarrow>
     (\<forall>ga gb gq x y. as_int ga = Some x \<and> as_int gb = Some y \<and> y \<noteq> 0 \<longrightarrow>
        (\<exists>r q' rem quo. giac_irem ga gb gq = (Inr r, q') \<and>
            as_int r = Some rem \<and> as_int q' = Some quo \<and>
            x = y * quo + rem \<and> 0 \<le> rem \<and> rem < \<bar>y\<bar>))"

text \<open>
  Modelled from the spec: \<^verbatim>\<open>giac::gcd(a, b, ctx)\<close> and \<^verbatim>\<open>giac::lcm(a, b)\<close>, which
  are not in the sources: on nonzero integers they return the greatest common divisor
  and the least common multiple.
\<close>

definition gcd_lcm_convention ::
  "('g \<Rightarrow> 'g \<Rightarrow> 'c \<Rightarrow> exn + 'g) \<Rightarrow> ('g \<Rightarrow> 'g \<Rightarrow> exn + 'g) \<Rightarrow> ('g \<Rightarrow> int option) \<Rightarrow> bool" where
  "gcd_lcm_convention giac_gcd giac_lcm as_int \<longleftrightarrow>
     (\<forall>ga gb ctx x y. as_int ga = Some x \<and> as_int gb = Some y \<and> x \<noteq> 0 \<and> y \<noteq> 0 \<longrightarrow>
        (\<exists>g l. giac_gcd ga gb ctx = Inr g \<and> giac_lcm ga gb = Inr l \<and>
            as_int g = Some (gcd x y) \<and> as_int l = Some (lcm x y)))"

text \<open>
  Modelled from the spec: \<^verbatim>\<open>giac::factorial(unsigned long)\<close> and
  \<^verbatim>\<open>giac::gen::print()\<close>, which are not in the sources: ``\<^verbatim>\<open>from_factorial\<close>
  computes n! as an exact (arbitrary-precision) integer value'', and the canonical
  textual form of an integer is its decimal digits.
\<close>

definition factorial_print_convention ::
  "(64 word \<Rightarrow> exn + 'g) \<Rightarrow> ('g \<Rightarrow> exn + string) \<Rightarrow> ('g \<Rightarrow> int option) \<Rightarrow> bool" where
  "factorial_print_convention giac_factorial giac_print as_int \<longleftrightarrow>
     (\<forall>i. \<exists>g. giac_factorial i = Inr g \<and> as_int g = Some (fact (unat i))) \<and>
     (\<forall>g k. as_int g = Some k \<longrightarrow> giac_print g = Inr (decimal k))"

text \<open>A C \<^verbatim>\<open>int\<close> that an \<^verbatim>\<open>int8_t\<close> can hold.\<close>

definition fits_int8 :: "32 word \<Rightarrow> bool" where
  "fits_int8 r \<longleftrightarrow> - 128 \<le> sint r \<and> sint r \<le> 127"

section \<open>A library on integers\<close>

text \<open>
  The library functions are parameters of the entry points. These are instances of
  them, small enough to compute with, on which the theorems are run. Values are
  integers, or \<open>None\<close> for the library's undefined value.
\<close>

text \<open>Instances of the operators \<^verbatim>\<open>+ - * /\<close> of \<^verbatim>\<open>giac::gen\<close>, on integers.
  Division by zero is a ``domain error''; a quotient that is no integer has no value
  among integers, and this instance throws there too.\<close>

definition int_plus :: "int \<Rightarrow> int \<Rightarrow> exn + int" where
  "int_plus x y = Inr (x + y)"

definition int_minus :: "int \<Rightarrow> int \<Rightarrow> exn + int" where
  "int_minus x y = Inr (x - y)"

definition int_times :: "int \<Rightarrow> int \<Rightarrow> exn + int" where
  "int_times x y = Inr (x * y)"

definition int_divide :: "int \<Rightarrow> int \<Rightarrow> exn + int" where
  "int_divide x y =
     (if y = 0 then Inl (Runtime_error ''Division by 0'')
      else if y dvd x then Inr (x div y)
      else Inl (Runtime_error ''Quotient is not an integer''))"

definition int_ops ::
  "(int \<Rightarrow> int \<Rightarrow> exn + int) \<times> (int \<Rightarrow> int \<Rightarrow> exn + int) \<times> (int \<Rightarrow> int \<Rightarrow> exn + int) \<times> (int \<Rightarrow> int \<Rightarrow> exn + int)" where
  "int_ops = (int_plus, int_minus, int_times, int_divide)"

text \<open>Modelled from the spec: \<^verbatim>\<open>giac::irem\<close> with the remainder in \<open>0 \<le> r < |b|\<close>.\<close>

definition int_irem :: "int \<Rightarrow> int \<Rightarrow> int \<Rightarrow> (exn + int) \<times> int" where
  "int_irem x y q =
     (if y = 0 then (Inl (Runtime_error ''Division by 0''), q)
      else (Inr (x mod \<bar>y\<bar>), (x - x mod \<bar>y\<bar>) div y))"

text \<open>Modelled from the spec: \<^verbatim>\<open>giac::gcd\<close> and \<^verbatim>\<open>giac::lcm\<close> on integers.\<close>

definition int_gcd :: "int \<Rightarrow> int \<Rightarrow> unit \<Rightarrow> exn + int" where
  "int_gcd x y ctx = Inr (gcd x y)"

definition int_lcm :: "int \<Rightarrow> int \<Rightarrow> exn + int" where
  "int_lcm x y = Inr (lcm x y)"

text \<open>Modelled from the spec: \<^verbatim>\<open>giac::factorial\<close> and \<^verbatim>\<open>print\<close> on integers.\<close>

definition int_factorial :: "64 word \<Rightarrow> exn + int" where
  "int_factorial i = Inr (fact (unat i))"

definition int_print :: "int \<Rightarrow> exn + string" where
  "int_print k = Inr (decimal k)"

text \<open>
  An instance of \<^verbatim>\<open>giac::_ithprime\<close> with a table of four primes, undefined beyond
  it (the ``oversized argument''), and of \<^verbatim>\<open>giac::is_undef\<close>.
\<close>

definition small_ithprime :: "int option \<Rightarrow> unit \<Rightarrow> exn + int option" where
  "small_ithprime n ctx =
     (case n of
        None \<Rightarrow> Inl (Runtime_error ''Bad Argument Type'')
      | Some k \<Rightarrow>
          if 1 \<le> k \<and> k \<le> 4 then Inr (Some ([2, 3, 5, 7] ! nat (k - 1))) else Inr None)"

definition small_is_undef :: "int option \<Rightarrow> bool" where
  "small_is_undef v = (v = None)"

text \<open>
  Instances of the sign-coded predicates. \<open>euler_legendre\<close> is the Legendre symbol at
  an odd prime by Euler's criterion (\<open>-1\<close>, \<open>0\<close> or \<open>1\<close>), also taken for the Jacobi
  symbol there; \<open>trial_probab_prime\<close> answers \<open>0\<close> (composite) or \<open>2\<close> (prime) by
  trial division.
\<close>

definition euler_legendre :: "int \<Rightarrow> int \<Rightarrow> exn + 32 word" where
  "euler_legendre a p =
     (let r = (a ^ nat ((p - 1) div 2)) mod p
      in Inr (if r = 0 then 0 else if r = 1 then 1 else - 1))"

definition trial_probab_prime :: "int \<Rightarrow> exn + 32 word" where
  "trial_probab_prime n =
     Inr (if 2 \<le> n \<and> list_all (\<lambda>d. n mod int d \<noteq> 0) [2..<nat n] then 2 else 0)"

text \<open>
  Instances of the predicates that answer one and the same \<^verbatim>\<open>int\<close> \<open>c\<close> for every
  argument, of one and of two arguments.
\<close>

definition unary_code :: "32 word \<Rightarrow> int \<Rightarrow> exn + 32 word" where
  "unary_code c a = Inr c"

definition binary_code :: "32 word \<Rightarrow> int \<Rightarrow> int \<Rightarrow> exn + 32 word" where
  "binary_code c a b = Inr c"

text \<open>
  An instance of the string constructor and of \<^verbatim>\<open>giac::eval\<close>. An expression is a
  number (decimal digits) or a quotient of two numbers; any other text is a syntax
  error, recorded in the context as the line of the first error and the diagnostic
  (\<^verbatim>\<open>first_error_line\<close> and \<^verbatim>\<open>parser_error\<close> are then \<open>fst\<close> and \<open>snd\<close>). The
  evaluation of a quotient by zero throws (an ``evaluation failure'').
\<close>

datatype expr = Num int | Quotient int int | Unparsed

type_synonym parse_ctx = "int \<times> string"

fun digits_value :: "int \<Rightarrow> string \<Rightarrow> int option" where
  "digits_value acc [] = Some acc"
| "digits_value acc (c # cs) =
     (if (48::nat) \<le> of_char c \<and> of_char c \<le> (57::nat)
      then digits_value (10 * acc + (of_char c - 48)) cs
      else None)"

definition number :: "string \<Rightarrow> int option" where
  "number s = (if s = [] then None else digits_value 0 s)"

definition expr_gen :: "string \<Rightarrow> parse_ctx \<Rightarrow> (exn + expr) \<times> parse_ctx" where
  "expr_gen s ctx =
     (let l = takeWhile (\<lambda>c. c \<noteq> CHR ''/'') s; r = drop (length l + 1) s
      in case (number l, number r) of
           (Some n, Some d) \<Rightarrow> (Inr (Quotient n d), (0, []))
         | (Some n, None) \<Rightarrow>
             if l = s then (Inr (Num n), (0, []))
             else (Inr Unparsed, (1, ''syntax error, unexpected end of input''))
         | (None, _) \<Rightarrow> (Inr Unparsed, (1, ''syntax error, unexpected end of input'')))"

definition expr_eval :: "expr \<Rightarrow> parse_ctx \<Rightarrow> (exn + expr) \<times> parse_ctx" where
  "expr_eval e ctx =
     (case e of
        Quotient n d \<Rightarrow>
          if d = 0 then (Inl (Runtime_error ''Division by 0''), ctx)
          else if d dvd n then (Inr (Num (n div d)), ctx)
          else (Inr (Quotient n d), ctx)
      | _ \<Rightarrow> (Inr e, ctx))"

text \<open>
  Instances that fail on every call: a \<^verbatim>\<open>print\<close> and a string constructor that
  throw a \<^verbatim>\<open>std::runtime_error\<close>, and an addition that throws \<^verbatim>\<open>std::bad_alloc\<close>.
\<close>

definition throwing_print :: "int \<Rightarrow> exn + string" where
  "throwing_print v = Inl (Runtime_error ''Error: Bad Argument Value'')"

definition throwing_gen :: "string \<Rightarrow> parse_ctx \<Rightarrow> (exn + expr) \<times> parse_ctx" where
  "throwing_gen s ctx = (Inl (Runtime_error ''Error: Bad Argument Value''), ctx)"

definition bad_alloc_plus :: "int \<Rightarrow> int \<Rightarrow> exn + int" where
  "bad_alloc_plus x y = Inl (Other_exception ''std::bad_alloc'')"

section \<open>Facts about the store\<close>

lemma cell_fresh: "cell h (fresh h) = None"
  by (induction h rule: fresh.induct) (auto simp: cell_def split: if_splits)

lemma fresh_le_length: "fresh h \<le> length h"
  by (induction h rule: fresh.induct) simp_all

lemma cell_update:
  "cell (h[p := x]) q = (if q = p \<and> p < length h then x else cell h q)"
  by (simp add: cell_def nth_list_update)

lemma cell_new_gen:
  "cell (snd (new_gen v h)) q = (if q = fresh h then Some v else cell h q)"
  using fresh_le_length [of h]
  by (auto simp: new_gen_def Let_def cell_def nth_list_update nth_append)

lemma fst_new_gen: "fst (new_gen v h) = fresh h"
  by (simp add: new_gen_def Let_def)

lemma cell_live_less: "cell h p = Some v \<Longrightarrow> p < length h"
  by (simp add: cell_def split: if_splits)

lemma fold_max_ge: "(n::nat) \<le> fold max xs n"
proof (induction xs arbitrary: n)
  case Nil
  show ?case by simp
next
  case (Cons x xs)
  have "n \<le> max x n" by simp
  also have "\<dots> \<le> fold max xs (max x n)" by (rule Cons.IH)
  finally show ?case by simp
qed

lemma fold_max_member: "x \<in> set xs \<Longrightarrow> (x::nat) \<le> fold max xs n"
proof (induction xs arbitrary: n)
  case Nil
  then show ?case by simp
next
  case (Cons y ys)
  show ?case
  proof (cases "x = y")
    case True
    have "x \<le> max y n" using True by simp
    also have "\<dots> \<le> fold max ys (max y n)" by (rule fold_max_ge)
    finally show ?thesis by simp
  next
    case False
    then have "x \<in> set ys" using Cons.prems by simp
    then show ?thesis using Cons.IH by simp
  qed
qed

lemma local_gen_past_store: "length h \<le> fst (local_gen v ps h)"
  by (simp add: local_gen_def Let_def fold_max_ge)

lemma local_gen_no_argument: "p \<in> set ps \<Longrightarrow> fst (local_gen v ps h) \<noteq> p"
proof -
  assume "p \<in> set ps"
  then have "Suc p \<in> set (map Suc ps)" by simp
  then have "Suc p \<le> fold max (map Suc ps) (length h)" by (rule fold_max_member)
  then show ?thesis by (simp add: local_gen_def Let_def)
qed

lemma cell_local_gen:
  "cell (snd (local_gen v ps h)) q =
     (if q = fst (local_gen v ps h) then Some v else cell h q)"
  using fold_max_ge [of "length h" "map Suc ps"]
  by (auto simp: local_gen_def Let_def cell_def nth_append)

lemma cell_update_live:
  "cell h p = Some old \<Longrightarrow> cell (h[p := x]) q = (if q = p then x else cell h q)"
  by (auto simp: cell_update dest: cell_live_less)

lemma cell_update_None: "cell (h[p := None]) q = (if q = p then None else cell h q)"
  by (auto simp: cell_def nth_list_update)

section \<open>Facts about the macros and the operators\<close>

lemma SAFE_CALL_assign_reading:
  "SAFE_CALL (assign_gen res) (reading e) h =
     (case e h of
        Returns v \<Rightarrow> (case cell h res of None \<Rightarrow> (Undefined, h)
                       | Some old \<Rightarrow> (Returns None, h[res := Some v]))
      | Throws (Runtime_error m) \<Rightarrow> (Returns (Some (strcpy m)), h)
      | Throws (Other_exception m) \<Rightarrow> (Throws (Other_exception m), h)
      | Undefined \<Rightarrow> (Undefined, h))"
  by (simp add: SAFE_CALL_def SAFE_VOID_CALL_def reading_def assign_gen_def
           split: outcome.splits exn.splits option.splits)

lemma deref_live: "cell h p = Some v \<Longrightarrow> deref h p = Returns v"
  by (simp add: deref_def)

lemma operator_call_live:
  "cell h a = Some x \<Longrightarrow> cell h b = Some y \<Longrightarrow> operator_call op a b h = of_call (op x y)"
  by (simp add: operator_call_def deref_live)

lemma operator_entry_returns:
  assumes "cell h a = Some x" and "cell h b = Some y" and "op x y = Inr v"
  shows "SAFE_CALL (assign_gen a) (reading (operator_call op a b)) h = (Returns None, h[a := Some v])"
  using assms by (simp add: SAFE_CALL_assign_reading operator_call_live)

lemma operator_entry_frame:
  assumes "p \<noteq> a"
  shows "cell (snd (SAFE_CALL (assign_gen a) (reading (operator_call op a b)) h)) p = cell h p"
  using assms
  by (simp add: SAFE_CALL_assign_reading cell_update split: outcome.splits exn.splits option.splits)

lemma apply_operator_frame:
  assumes "p \<noteq> res"
  shows "cell (snd (apply_operator ops opr res f h)) p = cell h p"
proof -
  obtain o1 o2 o3 o4 where ops: "ops = (o1, o2, o3, o4)"
    by (cases ops) auto
  show ?thesis
    using assms unfolding ops
    by (cases opr)
       (simp_all add: giacrs_gen_add_def giacrs_gen_sub_def giacrs_gen_mul_def
          giacrs_gen_div_def operator_entry_frame)
qed

lemma mutate_frame:
  assumes "p \<noteq> res"
  shows "cell (mutate ops res calls h) p = cell h p"
  using assms
proof (induction calls arbitrary: h)
  case Nil
  then show ?case by simp
next
  case (Cons c calls)
  obtain opr f where c: "c = (opr, f)" by (cases c) auto
  obtain out h' where step: "apply_operator ops opr res f h = (out, h')"
    by (cases "apply_operator ops opr res f h") auto
  have keep: "cell h' p = cell h p"
    using apply_operator_frame [OF Cons.prems, of ops opr f h] step by simp
  show ?case
  proof (cases out)
    case (Returns r)
    then show ?thesis using Cons.IH [OF Cons.prems, of h'] keep step c by simp
  next
    case (Throws e)
    then show ?thesis using keep step c by simp
  next
    case Undefined
    then show ?thesis using keep step c by simp
  qed
qed

lemma to_str_cell:
  "cell h' e = cell h e \<Longrightarrow> giacrs_gen_to_str giac_print e h' = giacrs_gen_to_str giac_print e h"
  by (simp add: giacrs_gen_to_str_def deref_def)

lemma clone_live:
  assumes "cell h x = Some v"
  shows "giacrs_gen_clone x h = (Returns (fresh h), snd (new_gen v h))"
  using assms by (simp add: giacrs_gen_clone_def deref_live new_gen_def Let_def)

lemma fresh_not_live: "cell h x = Some v \<Longrightarrow> fresh h \<noteq> x"
  using cell_fresh [of h] by auto

section \<open>The arithmetic operators (C3)\<close>

text \<open>
  C3, as it stands, speaks of every pair of handles. When both arguments are the same
  handle the object is both operands and receives the result, so the value the second
  handle refers to changes: \<^verbatim>\<open>giacrs_gen_add(p, p)\<close> on the integer 1 leaves 2 there.
\<close>

theorem arithmetic_same_handle_counterexample:
  "cell [Some (1::int)] 0 = Some 1 \<and>
   giacrs_gen_add int_plus 0 0 [Some 1] = (Returns None, [Some 2]) \<and>
   cell (snd (giacrs_gen_add int_plus 0 0 [Some 1])) 0 = Some 2"
  by (simp add: giacrs_gen_add_def SAFE_CALL_assign_reading operator_call_def deref_def
        cell_def int_plus_def)

text \<open>
  C3, amended: for two live, distinct handles \<open>a\<close> and \<open>b\<close>, each of
  \<^verbatim>\<open>add\<close>, \<^verbatim>\<open>sub\<close>, \<^verbatim>\<open>mul\<close>, \<^verbatim>\<open>div\<close> whose library operator returns a value
  stores that value in the object of \<open>a\<close>, returns \<^verbatim>\<open>NULL\<close> and changes no other
  object; and whatever the library operator does (return or throw), the value that
  \<open>b\<close> refers to is unchanged.
\<close>

theorem arithmetic_writes_first_keeps_second:
  assumes "cell h a = Some x" and "cell h b = Some y" and "a \<noteq> b"
    and "giac_plus x y = Inr s" and "giac_minus x y = Inr d"
    and "giac_times x y = Inr t" and "giac_divide x y = Inr q"
  shows "giacrs_gen_add giac_plus a b h = (Returns None, h[a := Some s]) \<and>
         giacrs_gen_sub giac_minus a b h = (Returns None, h[a := Some d]) \<and>
         giacrs_gen_mul giac_times a b h = (Returns None, h[a := Some t]) \<and>
         giacrs_gen_div giac_divide a b h = (Returns None, h[a := Some q]) \<and>
         (\<forall>v. cell (h[a := Some v]) a = Some v \<and> cell (h[a := Some v]) b = Some y \<and>
              (\<forall>p. p \<noteq> a \<longrightarrow> cell (h[a := Some v]) p = cell h p)) \<and>
         (\<forall>op. cell (snd (giacrs_gen_add op a b h)) b = Some y \<and>
               cell (snd (giacrs_gen_sub op a b h)) b = Some y \<and>
               cell (snd (giacrs_gen_mul op a b h)) b = Some y \<and>
               cell (snd (giacrs_gen_div op a b h)) b = Some y)"
proof -
  have "a < length h"
    using assms(1) by (rule cell_live_less)
  then have "\<forall>v. cell (h[a := Some v]) a = Some v \<and> cell (h[a := Some v]) b = Some y \<and>
              (\<forall>p. p \<noteq> a \<longrightarrow> cell (h[a := Some v]) p = cell h p)"
    using assms(2,3) by (simp add: cell_update)
  moreover have "\<forall>op. cell (snd (giacrs_gen_add op a b h)) b = Some y \<and>
               cell (snd (giacrs_gen_sub op a b h)) b = Some y \<and>
               cell (snd (giacrs_gen_mul op a b h)) b = Some y \<and>
               cell (snd (giacrs_gen_div op a b h)) b = Some y"
    using assms(2,3)
    by (simp add: giacrs_gen_add_def giacrs_gen_sub_def giacrs_gen_mul_def
          giacrs_gen_div_def operator_entry_frame)
  ultimately show ?thesis
    using assms
    by (simp add: giacrs_gen_add_def giacrs_gen_sub_def giacrs_gen_mul_def
          giacrs_gen_div_def operator_entry_returns)
qed

text \<open>The theorem on the integers 6 and 3.\<close>

theorem arithmetic_writes_first_keeps_second_witness:
  "giacrs_gen_add int_plus 0 1 [Some 6, Some 3] = (Returns None, [Some 9, Some 3]) \<and>
   giacrs_gen_sub int_minus 0 1 [Some 6, Some 3] = (Returns None, [Some 3, Some 3]) \<and>
   giacrs_gen_mul int_times 0 1 [Some 6, Some 3] = (Returns None, [Some 18, Some 3]) \<and>
   giacrs_gen_div int_divide 0 1 [Some 6, Some 3] = (Returns None, [Some 2, Some 3])"
  using arithmetic_writes_first_keeps_second
          [of "[Some 6, Some 3]" 0 6 1 3 int_plus 9 int_minus 3 int_times 18 int_divide 2]
  by (simp add: cell_def int_plus_def int_minus_def int_times_def int_divide_def)

section \<open>Clone (C4)\<close>

text \<open>
  C4: for a live handle \<open>x\<close>, \<^verbatim>\<open>clone\<close> returns a new handle, different from
  \<open>x\<close>, whose object holds the value of \<open>x\<close>. Whatever sequence of \<^verbatim>\<open>add\<close>,
  \<^verbatim>\<open>sub\<close>, \<^verbatim>\<open>mul\<close>, \<^verbatim>\<open>div\<close> calls then mutates the clone, with whatever second
  operands (\<open>x\<close> itself among them) and whatever the library operators do, \<^verbatim>\<open>to_string\<close>
  of \<open>x\<close> is what it was before the clone was made; the same after a single such call.
  The two objects have separate lifetimes: freeing either leaves the other live with
  its value.
\<close>

theorem clone_then_mutate_keeps_original:
  assumes "cell h x = Some v"
  shows "\<exists>c h1. giacrs_gen_clone x h = (Returns c, h1) \<and> c \<noteq> x \<and>
           cell h1 c = Some v \<and> cell h1 x = Some v \<and>
           (\<forall>ops calls. giacrs_gen_to_str giac_print x (mutate ops c calls h1) =
                         giacrs_gen_to_str giac_print x h) \<and>
           (\<forall>op f. giacrs_gen_to_str giac_print x (snd (giacrs_gen_add op c f h1)) =
                      giacrs_gen_to_str giac_print x h \<and>
                    giacrs_gen_to_str giac_print x (snd (giacrs_gen_sub op c f h1)) =
                      giacrs_gen_to_str giac_print x h \<and>
                    giacrs_gen_to_str giac_print x (snd (giacrs_gen_mul op c f h1)) =
                      giacrs_gen_to_str giac_print x h \<and>
                    giacrs_gen_to_str giac_print x (snd (giacrs_gen_div op c f h1)) =
                      giacrs_gen_to_str giac_print x h) \<and>
           cell (snd (giacrs_free_gen c h1)) x = Some v \<and>
           cell (snd (giacrs_free_gen x h1)) c = Some v"
proof -
  define c where "c = fresh h"
  define h1 where "h1 = snd (new_gen v h)"
  have clone: "giacrs_gen_clone x h = (Returns c, h1)"
    using assms by (simp add: clone_live c_def h1_def)
  have cx: "c \<noteq> x"
    using assms by (simp add: c_def fresh_not_live)
  have at_c: "cell h1 c = Some v" and at_x: "cell h1 x = cell h x"
    using cx by (simp_all add: h1_def c_def cell_new_gen)
  have seq: "giacrs_gen_to_str giac_print x (mutate ops c calls h1) =
             giacrs_gen_to_str giac_print x h" for ops calls
    using cx at_x by (intro to_str_cell) (simp add: mutate_frame)
  have one: "giacrs_gen_to_str giac_print x
               (snd (SAFE_CALL (assign_gen c) (reading (operator_call op c f)) h1)) =
             giacrs_gen_to_str giac_print x h" for op f
    using cx at_x by (intro to_str_cell) (simp add: operator_entry_frame)
  have free_c: "cell (snd (giacrs_free_gen c h1)) x = Some v"
    using cx at_x assms at_c
    by (simp add: giacrs_free_gen_def delete_gen_def cell_update)
  have free_x: "cell (snd (giacrs_free_gen x h1)) c = Some v"
    using cx at_x assms at_c
    by (simp add: giacrs_free_gen_def delete_gen_def cell_update)
  show ?thesis
    using clone cx at_c at_x assms seq one free_c free_x
    by (simp add: giacrs_gen_add_def giacrs_gen_sub_def giacrs_gen_mul_def giacrs_gen_div_def)
qed

text \<open>The theorem on the integer 5: the clone becomes 20, the original prints 5.\<close>

theorem clone_then_mutate_keeps_original_witness:
  "giacrs_gen_clone 0 [Some (5::int)] = (Returns 1, [Some 5, Some 5]) \<and>
   mutate int_ops 1 [(Add, 0), (Mul, 1), (Div, 0)] [Some 5, Some 5] = [Some 5, Some 20] \<and>
   giacrs_gen_to_str int_print 0 [Some 5, Some 20] = Returns ''5'' \<and>
   giacrs_gen_to_str int_print 0 [Some 5] = Returns ''5''"
  using clone_then_mutate_keeps_original [of "[Some 5]" 0 5 int_print]
  by (simp add: cell_def giacrs_gen_clone_def deref_def new_gen_def int_ops_def
        giacrs_gen_add_def giacrs_gen_mul_def giacrs_gen_div_def SAFE_CALL_assign_reading
        operator_call_def int_plus_def int_times_def int_divide_def
        giacrs_gen_to_str_def int_print_def string_to_c_def strcpy_def
        decimal_def decimal_nat.simps digit_char_def)

section \<open>The guard of nthprime (C5)\<close>

lemma strcpy_nthprime_message: "strcpy nthprime_message = nthprime_message"
  by (simp add: strcpy_def nthprime_message_def)

text \<open>
  C5: with live handles, when the library's lookup returns an undefined value,
  \<^verbatim>\<open>nthprime\<close> returns the wrapper's own message, ``Failed to compute nthprime,
  argument is too big'', as the error string, whatever the library said (the undefined
  value has been stored in the output slot by then); when the lookup returns a defined
  value, that value is stored in the output slot and \<^verbatim>\<open>NULL\<close> is returned. A
  \<^verbatim>\<open>std::runtime_error\<close> of the library comes back on the same channel with the
  library's text, the store unchanged.
\<close>

theorem nthprime_guards_undefined:
  assumes "cell h a = Some x" and "cell h res = Some old"
  shows "giacrs_gen_nthprime ithprime is_undef a res ctx h =
           (case ithprime x ctx of
              Inr v \<Rightarrow>
                (if is_undef v then Returns (Some nthprime_message) else Returns None,
                 h[res := Some v])
            | Inl (Runtime_error m) \<Rightarrow> (Returns (Some (strcpy m)), h)
            | Inl (Other_exception m) \<Rightarrow> (Throws (Other_exception m), h)) \<and>
         nthprime_message = ''Failed to compute nthprime, argument is too big''"
  using assms
  by (simp add: giacrs_gen_nthprime_def SAFE_VOID_CALL_def deref_live assign_gen_def
        strcpy_nthprime_message
        split: sum.splits exn.splits)
     (simp add: nthprime_message_def)

text \<open>The theorem on a table of four primes: the ninth prime is undefined, the third
  is 5, and a bad argument is the library's own error.\<close>

theorem nthprime_guards_undefined_witness:
  "giacrs_gen_nthprime small_ithprime small_is_undef 0 1 () [Some (Some 9), Some (Some 0)] =
     (Returns (Some nthprime_message), [Some (Some 9), Some None]) \<and>
   giacrs_gen_nthprime small_ithprime small_is_undef 0 1 () [Some (Some 3), Some (Some 0)] =
     (Returns None, [Some (Some 3), Some (Some 5)]) \<and>
   giacrs_gen_nthprime small_ithprime small_is_undef 0 1 () [Some None, Some (Some 0)] =
     (Returns (Some ''Bad Argument Type''), [Some None, Some (Some 0)])"
  using nthprime_guards_undefined [THEN conjunct1,
          of "[Some (Some 9), Some (Some 0)]" 0 "Some 9" 1 "Some 0" small_ithprime small_is_undef "()"]
        nthprime_guards_undefined [THEN conjunct1,
          of "[Some (Some 3), Some (Some 0)]" 0 "Some 3" 1 "Some 0" small_ithprime small_is_undef "()"]
        nthprime_guards_undefined [THEN conjunct1,
          of "[Some None, Some (Some 0)]" 0 None 1 "Some 0" small_ithprime small_is_undef "()"]
  by (simp add: cell_def small_ithprime_def small_is_undef_def strcpy_def)

section \<open>Sign-coded predicates (C9)\<close>

lemma ucast_is_scast_32_8: "(ucast (r :: 32 word) :: 8 word) = scast r"
  by (rule bit_word_eqI) (auto simp: bit_ucast_iff bit_signed_iff)

lemma narrow_keeps_small:
  assumes "fits_int8 r"
  shows "sint (ucast r :: 8 word) = sint r"
proof -
  have e: "(ucast r :: 8 word) = word_of_int (sint r)"
    by (simp add: ucast_is_scast_32_8)
  have "sint (word_of_int (sint r) :: 8 word) = signed_take_bit (LENGTH(8) - 1) (sint r)"
    by (rule sint_sbintrunc')
  also have "\<dots> = sint r"
    using assms by (intro signed_take_bit_int_eq_self) (simp_all add: fits_int8_def)
  finally show ?thesis
    by (simp only: e)
qed

lemma SAFE_CALL_slot_reading:
  "SAFE_CALL (\<lambda>v slot. (Returns (), f v)) (reading (\<lambda>slot. e)) s =
     (case e of
        Returns v \<Rightarrow> (Returns None, f v)
      | Throws (Runtime_error m) \<Rightarrow> (Returns (Some (strcpy m)), s)
      | Throws (Other_exception m) \<Rightarrow> (Throws (Other_exception m), s)
      | Undefined \<Rightarrow> (Undefined, s))"
  by (simp add: SAFE_CALL_def SAFE_VOID_CALL_def reading_def split: outcome.splits exn.splits)

text \<open>
  C9, as it stands, speaks of every input and of the library's result exactly. The
  library functions return a C \<^verbatim>\<open>int\<close> and the output slot is an \<^verbatim>\<open>int8_t\<close>: when
  the library answers 128 the slot holds \<open>-128\<close>, when it answers 256 the slot holds
  0, when it answers 300 the slot holds 44, and when it answers \<open>-2147483647\<close> the slot
  holds 1, each time with \<^verbatim>\<open>NULL\<close> returned.
\<close>

theorem predicates_narrow_counterexample:
  "giacrs_gen_legendre (binary_code 128) 0 1 [Some 3, Some 7] 0 =
     (Returns None, ucast (128 :: 32 word)) \<and>
   sint (128 :: 32 word) = 128 \<and>
   sint (ucast (128 :: 32 word) :: 8 word) = - 128 \<and>
   giacrs_gen_jacobi (binary_code 256) 0 1 [Some 3, Some 7] 5 = (Returns None, 0) \<and>
   sint (256 :: 32 word) = 256 \<and>
   giacrs_gen_is_pseudoprime (unary_code 300) 1 [Some 3, Some 7] 0 =
     (Returns None, ucast (300 :: 32 word)) \<and>
   sint (300 :: 32 word) = 300 \<and>
   sint (ucast (300 :: 32 word) :: 8 word) = 44 \<and>
   giacrs_gen_legendre (binary_code (- 2147483647)) 0 1 [Some 3, Some 7] 0 =
     (Returns None, ucast (- 2147483647 :: 32 word)) \<and>
   sint (- 2147483647 :: 32 word) = - 2147483647 \<and>
   sint (ucast (- 2147483647 :: 32 word) :: 8 word) = 1"
  by (simp add: giacrs_gen_legendre_def giacrs_gen_jacobi_def giacrs_gen_is_pseudoprime_def
        SAFE_CALL_slot_reading deref_def cell_def unary_code_def binary_code_def)

text \<open>
  C9, amended: for live handles, whenever the library's \<^verbatim>\<open>is_probab_prime_p\<close>,
  \<^verbatim>\<open>legendre\<close> or \<^verbatim>\<open>jacobi\<close> returns a code that a signed byte can hold
  (\<open>-128\<close> to 127), the entry point stores that code in its \<^verbatim>\<open>int8_t\<close> output slot
  exactly, with its sign and value (\<open>-1\<close>, \<open>0\<close>, \<open>1\<close>, \<open>2\<close> stay what they are), and
  returns \<^verbatim>\<open>NULL\<close>; nothing is collapsed to a boolean.
\<close>

theorem predicates_keep_sign_code:
  assumes "cell h a = Some x" and "cell h b = Some y"
    and "is_probab_prime_p x = Inr r1" and "fits_int8 r1"
    and "giac_legendre x y = Inr r2" and "fits_int8 r2"
    and "giac_jacobi x y = Inr r3" and "fits_int8 r3"
  shows "giacrs_gen_is_pseudoprime is_probab_prime_p a h slot = (Returns None, ucast r1) \<and>
         sint (ucast r1 :: 8 word) = sint r1 \<and>
         giacrs_gen_legendre giac_legendre a b h slot = (Returns None, ucast r2) \<and>
         sint (ucast r2 :: 8 word) = sint r2 \<and>
         giacrs_gen_jacobi giac_jacobi a b h slot = (Returns None, ucast r3) \<and>
         sint (ucast r3 :: 8 word) = sint r3"
  using assms
  by (simp add: giacrs_gen_is_pseudoprime_def giacrs_gen_legendre_def giacrs_gen_jacobi_def
        SAFE_CALL_slot_reading deref_live narrow_keeps_small)

text \<open>The theorem on 3 and 7: 7 is prime (code 2), 3 is not a square modulo 7
  (code \<open>-1\<close>), and the symbol of 7 over 7 is 0.\<close>

theorem predicates_keep_sign_code_witness:
  "giacrs_gen_is_pseudoprime trial_probab_prime 1 [Some 3, Some 7] 0 = (Returns None, 2) \<and>
   giacrs_gen_legendre euler_legendre 0 1 [Some 3, Some 7] 0 =
     (Returns None, ucast (- 1 :: 32 word)) \<and>
   sint (ucast (- 1 :: 32 word) :: 8 word) = - 1 \<and>
   giacrs_gen_jacobi euler_legendre 1 1 [Some 3, Some 7] 5 = (Returns None, 0)"
  using predicates_keep_sign_code
          [of "[Some 3, Some 7]" 1 7 1 7 trial_probab_prime 2 euler_legendre 0 euler_legendre 0 5]
        predicates_keep_sign_code
          [of "[Some 3, Some 7]" 0 3 1 7 trial_probab_prime 2 euler_legendre "- 1" euler_legendre "- 1" 0]
  by (simp add: cell_def trial_probab_prime_def euler_legendre_def fits_int8_def
        giacrs_gen_is_pseudoprime_def giacrs_gen_legendre_def giacrs_gen_jacobi_def
        SAFE_CALL_slot_reading deref_def)

section \<open>Exceptions at the boundary (C1)\<close>

lemma SAFE_VOID_CALL_contains: "\<not> unwinds_runtime_error (fst (SAFE_VOID_CALL res_code s))"
  by (simp add: SAFE_VOID_CALL_def split: prod.splits outcome.splits exn.splits)

lemma SAFE_CALL_contains: "\<not> unwinds_runtime_error (fst (SAFE_CALL assign res_code s))"
  unfolding SAFE_CALL_def by (rule SAFE_VOID_CALL_contains)

text \<open>
  C1, as it stands, says that no exception leaves any entry point. Three calls where one
  does: \<^verbatim>\<open>giacrs_gen_to_str\<close> has no \<^verbatim>\<open>try\<close> block, so a
  \<^verbatim>\<open>std::runtime_error\<close> of \<^verbatim>\<open>print\<close> leaves it; the handler of
  \<^verbatim>\<open>giacrs_gen_add\<close> matches \<^verbatim>\<open>std::runtime_error\<close> only, so a
  \<^verbatim>\<open>std::bad_alloc\<close> leaves it; and \<^verbatim>\<open>giacrs_gen_from_str\<close> constructs the
  value before its \<^verbatim>\<open>try\<close> block, so an exception of the constructor leaves it.
\<close>

theorem uncaught_exceptions_counterexample:
  "giacrs_gen_to_str throwing_print 0 [Some 0] =
     Throws (Runtime_error ''Error: Bad Argument Value'') \<and>
   giacrs_gen_add bad_alloc_plus 0 1 [Some 2, Some 3] =
     (Throws (Other_exception ''std::bad_alloc''), [Some 2, Some 3]) \<and>
   giacrs_gen_from_str throwing_gen fst snd expr_eval ''1'' (0, []) 0 [Some (Num 0)] =
     (Throws (Runtime_error ''Error: Bad Argument Value''), [Some (Num 0)], (0, []))"
  by (simp add: giacrs_gen_to_str_def giacrs_gen_add_def SAFE_CALL_assign_reading
        operator_call_def deref_def cell_def giacrs_gen_from_str_def
        throwing_print_def throwing_gen_def bad_alloc_plus_def)

text \<open>
  C1, amended: for every entry point whose delegated computation runs inside
  \<^verbatim>\<open>SAFE_VOID_CALL\<close> or \<^verbatim>\<open>SAFE_CALL\<close> (or inside the \<^verbatim>\<open>try\<close> block of
  \<^verbatim>\<open>nthprime\<close>), every \<^verbatim>\<open>std::runtime_error\<close> raised there is caught in the
  wrapper and the copy of its message is returned as the error string, the state as the
  body left it; no \<^verbatim>\<open>std::runtime_error\<close> raised there leaves the function. An
  exception of another type passes through the handler. So no \<^verbatim>\<open>std::runtime_error\<close>
  leaves \<^verbatim>\<open>to_int\<close>, \<^verbatim>\<open>gcd\<close>, \<^verbatim>\<open>lcm\<close>, \<^verbatim>\<open>iquorem\<close>, \<^verbatim>\<open>irem\<close>,
  \<^verbatim>\<open>is_pseudoprime\<close>, \<^verbatim>\<open>nthprime\<close>, \<^verbatim>\<open>legendre\<close>, \<^verbatim>\<open>jacobi\<close>, \<^verbatim>\<open>add\<close>,
  \<^verbatim>\<open>sub\<close>, \<^verbatim>\<open>mul\<close> or \<^verbatim>\<open>div\<close>, whatever the library functions do.
\<close>

theorem runtime_errors_are_caught:
  "\<not> unwinds_runtime_error (fst (SAFE_VOID_CALL res_code s)) \<and>
   \<not> unwinds_runtime_error (fst (SAFE_CALL assign expr s)) \<and>
   (\<forall>m s'. res_code s = (Throws (Runtime_error m), s') \<longrightarrow>
      SAFE_VOID_CALL res_code s = (Returns (Some (strcpy m)), s')) \<and>
   (\<forall>m s'. expr s = (Throws (Runtime_error m), s') \<longrightarrow>
      SAFE_CALL assign expr s = (Returns (Some (strcpy m)), s')) \<and>
   (\<forall>m s'. res_code s = (Throws (Other_exception m), s') \<longrightarrow>
      SAFE_VOID_CALL res_code s = (Throws (Other_exception m), s')) \<and>
   \<not> unwinds_runtime_error (fst (giacrs_gen_to_int giac_to_int e h slot)) \<and>
   \<not> unwinds_runtime_error (fst (giacrs_gen_gcd giac_gcd a b res ctx h)) \<and>
   \<not> unwinds_runtime_error (fst (giacrs_gen_lcm giac_lcm a b res h)) \<and>
   \<not> unwinds_runtime_error (fst (giacrs_gen_iquorem giac_irem a b q res h)) \<and>
   \<not> unwinds_runtime_error (fst (giacrs_gen_irem giac_irem gen0 a b res h)) \<and>
   \<not> unwinds_runtime_error (fst (giacrs_gen_is_pseudoprime is_probab_prime_p a h slot8)) \<and>
   \<not> unwinds_runtime_error (fst (giacrs_gen_nthprime ithprime is_undef a res ctx h)) \<and>
   \<not> unwinds_runtime_error (fst (giacrs_gen_legendre giac_legendre a b h slot8)) \<and>
   \<not> unwinds_runtime_error (fst (giacrs_gen_jacobi giac_jacobi a b h slot8)) \<and>
   \<not> unwinds_runtime_error (fst (giacrs_gen_add giac_plus res f h)) \<and>
   \<not> unwinds_runtime_error (fst (giacrs_gen_sub giac_minus res f h)) \<and>
   \<not> unwinds_runtime_error (fst (giacrs_gen_mul giac_times res f h)) \<and>
   \<not> unwinds_runtime_error (fst (giacrs_gen_div giac_divide res f h))"
proof -
  have "fst (giacrs_gen_irem giac_irem gen0 a b res h) =
          fst (giacrs_gen_iquorem giac_irem a b (fst (local_gen gen0 [a, b, res] h)) res
                 (snd (local_gen gen0 [a, b, res] h)))"
    by (simp add: giacrs_gen_irem_def split: prod.splits)
  then have irem: "\<not> unwinds_runtime_error (fst (giacrs_gen_irem giac_irem gen0 a b res h))"
    by (simp add: giacrs_gen_iquorem_def SAFE_CALL_contains)
  have void: "\<forall>m s'. res_code s = (Throws (Runtime_error m), s') \<longrightarrow>
      SAFE_VOID_CALL res_code s = (Returns (Some (strcpy m)), s')"
    by (simp add: SAFE_VOID_CALL_def)
  have val: "\<forall>m s'. expr s = (Throws (Runtime_error m), s') \<longrightarrow>
      SAFE_CALL assign expr s = (Returns (Some (strcpy m)), s')"
    by (simp add: SAFE_CALL_def SAFE_VOID_CALL_def)
  have other: "\<forall>m s'. res_code s = (Throws (Other_exception m), s') \<longrightarrow>
      SAFE_VOID_CALL res_code s = (Throws (Other_exception m), s')"
    by (simp add: SAFE_VOID_CALL_def)
  show ?thesis
    using irem void val other
    by (simp add: SAFE_VOID_CALL_contains SAFE_CALL_contains
          giacrs_gen_to_int_def giacrs_gen_gcd_def giacrs_gen_lcm_def giacrs_gen_iquorem_def
          giacrs_gen_is_pseudoprime_def giacrs_gen_nthprime_def giacrs_gen_legendre_def
          giacrs_gen_jacobi_def giacrs_gen_add_def giacrs_gen_sub_def giacrs_gen_mul_def
          giacrs_gen_div_def)
qed

text \<open>The theorem on a division by zero: the library's message comes back as the
  error string.\<close>

theorem runtime_errors_are_caught_witness:
  "reading (operator_call int_divide 0 1) [Some 6, Some 0] =
     (Throws (Runtime_error ''Division by 0''), [Some 6, Some 0]) \<and>
   SAFE_CALL (assign_gen 0) (reading (operator_call int_divide 0 1)) [Some 6, Some 0] =
     (Returns (Some ''Division by 0''), [Some 6, Some 0]) \<and>
   giacrs_gen_div int_divide 0 1 [Some 6, Some 0] =
     (Returns (Some ''Division by 0''), [Some 6, Some 0]) \<and>
   \<not> unwinds_runtime_error (fst (giacrs_gen_div int_divide 0 1 [Some 6, Some 0]))"
  using runtime_errors_are_caught
          [where expr = "reading (operator_call int_divide 0 1)" and assign = "assign_gen 0"
             and s = "[Some 6, Some 0]" and giac_divide = int_divide and res = 0 and f = 1
             and h = "[Some 6, Some 0]"]
  by (simp add: giacrs_gen_div_def SAFE_CALL_def SAFE_VOID_CALL_def assign_gen_def
        reading_def operator_call_def deref_def cell_def int_divide_def strcpy_def)

section \<open>Parsing and evaluating text (C2)\<close>

lemma from_str_parsed:
  assumes "cell h res = Some old" and "giac_gen s ctx = (Inr g, ctx1)"
  shows "giacrs_gen_from_str giac_gen first_error_line parser_error giac_eval s ctx res h =
           (if first_error_line ctx1 \<noteq> 0
            then (Returns (Some (string_to_c (parser_error ctx1))), h[res := Some g], ctx1)
            else case giac_eval g ctx1 of
                   (Inr v, ctx2) \<Rightarrow> (Returns None, h[res := Some v], ctx2)
                 | (Inl (Runtime_error m), ctx2) \<Rightarrow>
                     (Returns (Some (strcpy m)), h[res := Some g], ctx2)
                 | (Inl (Other_exception m), ctx2) \<Rightarrow>
                     (Throws (Other_exception m), h[res := Some g], ctx2))"
proof -
  have live: "cell (h[res := Some g]) res = Some g"
    using assms(1) by (simp add: cell_update_live)
  show ?thesis
    using assms live
    by (simp add: giacrs_gen_from_str_def assign_gen_def SAFE_CALL_def SAFE_VOID_CALL_def
          deref_live split: prod.splits sum.splits exn.splits)
qed

text \<open>
  C2, as it stands, says that every valid input is evaluated into the output slot with
  \<^verbatim>\<open>NULL\<close> returned. The text \<^verbatim>\<open>1/0\<close> parses without a syntax error, its
  evaluation throws, and \<^verbatim>\<open>from_text\<close> returns the message of the exception; the
  output slot holds the parsed, unevaluated quotient.
\<close>

theorem from_str_eval_failure_counterexample:
  "expr_gen ''1/0'' (0, []) = (Inr (Quotient 1 0), (0, [])) \<and>
   fst (snd (expr_gen ''1/0'' (0, []))) = 0 \<and>
   giacrs_gen_from_str expr_gen fst snd expr_eval ''1/0'' (0, []) 0 [Some (Num 0)] =
     (Returns (Some ''Division by 0''), [Some (Quotient 1 0)], (0, []))"
  by (simp add: expr_gen_def number_def expr_eval_def giacrs_gen_from_str_def assign_gen_def
        cell_def SAFE_CALL_def SAFE_VOID_CALL_def deref_def strcpy_def)

text \<open>
  C2, amended: when the constructor returns and the output handle is live, the parsed
  expression is stored in the output slot. If the context then reports a syntax error
  (\<^verbatim>\<open>first_error_line(ctx) != 0\<close>), \<^verbatim>\<open>from_text\<close> returns the parser's diagnostic
  as a non-null error string whatever the evaluator is (it is not called), and the slot
  keeps the unevaluated expression. Otherwise the expression is evaluated: when the
  evaluation returns, its value is stored in the slot and \<^verbatim>\<open>NULL\<close> is returned;
  when it throws a \<^verbatim>\<open>std::runtime_error\<close>, the message is returned and the slot
  keeps the unevaluated expression.
\<close>

theorem from_str_syntax_error_or_eval:
  assumes "cell h res = Some old" and "giac_gen s ctx = (Inr g, ctx1)"
  shows "(first_error_line ctx1 \<noteq> 0 \<longrightarrow>
            (\<forall>ev. giacrs_gen_from_str giac_gen first_error_line parser_error ev s ctx res h =
               (Returns (Some (string_to_c (parser_error ctx1))), h[res := Some g], ctx1))) \<and>
         (first_error_line ctx1 = 0 \<longrightarrow>
            giacrs_gen_from_str giac_gen first_error_line parser_error giac_eval s ctx res h =
              (case giac_eval g ctx1 of
                 (Inr v, ctx2) \<Rightarrow> (Returns None, h[res := Some v], ctx2)
               | (Inl (Runtime_error m), ctx2) \<Rightarrow>
                   (Returns (Some (strcpy m)), h[res := Some g], ctx2)
               | (Inl (Other_exception m), ctx2) \<Rightarrow>
                   (Throws (Other_exception m), h[res := Some g], ctx2)))"
  using assms by (simp add: from_str_parsed)

text \<open>The theorem on \<^verbatim>\<open>12+\<close> (a syntax error) and on \<^verbatim>\<open>12/4\<close> (evaluated to 3).\<close>

theorem from_str_syntax_error_or_eval_witness:
  "giacrs_gen_from_str expr_gen fst snd expr_eval ''12+'' (0, []) 0 [Some (Num 0)] =
     (Returns (Some ''syntax error, unexpected end of input''), [Some Unparsed],
      (1, ''syntax error, unexpected end of input'')) \<and>
   giacrs_gen_from_str expr_gen fst snd expr_eval ''12/4'' (0, []) 0 [Some (Num 0)] =
     (Returns None, [Some (Num 3)], (0, []))"
  using from_str_syntax_error_or_eval
          [of "[Some (Num 0)]" 0 "Num 0" expr_gen "''12+''" "(0, [])" Unparsed
              "(1, ''syntax error, unexpected end of input'')" fst snd expr_eval]
        from_str_syntax_error_or_eval
          [of "[Some (Num 0)]" 0 "Num 0" expr_gen "''12/4''" "(0, [])" "Quotient 12 4"
              "(0, [])" fst snd expr_eval]
  by (simp add: cell_def expr_gen_def number_def expr_eval_def string_to_c_def strcpy_def)

section \<open>Quotient and remainder (C6, C10)\<close>

lemma iquorem_live:
  assumes "cell h a = Some x" and "cell h b = Some y" and "cell h q = Some z"
    and "cell h res = Some old"
  shows "giacrs_gen_iquorem giac_irem a b q res h =
           (case giac_irem x y z of
              (Inr v, z') \<Rightarrow> (Returns None, h[q := Some z', res := Some v])
            | (Inl (Runtime_error m), z') \<Rightarrow> (Returns (Some (strcpy m)), h[q := Some z'])
            | (Inl (Other_exception m), z') \<Rightarrow> (Throws (Other_exception m), h[q := Some z']))"
proof -
  obtain r z' where lib: "giac_irem x y z = (r, z')"
    by (cases "giac_irem x y z") auto
  obtain w where res_live: "cell (h[q := Some z']) res = Some w"
    using assms(3,4) by (cases "res = q") (simp_all add: cell_update_live)
  show ?thesis
    using assms(1-3) lib res_live
    by (simp add: giacrs_gen_iquorem_def SAFE_CALL_def SAFE_VOID_CALL_def deref_live
          assign_gen_def split: sum.splits exn.splits)
qed

lemma int_irem_convention: "irem_convention int_irem Some"
proof -
  have "x = y * ((x - x mod \<bar>y\<bar>) div y) + x mod \<bar>y\<bar>" if "y \<noteq> 0" for x y :: int
  proof -
    have "\<bar>y\<bar> dvd x - x mod \<bar>y\<bar>"
      by (simp add: dvd_minus_mod)
    then have "y dvd x - x mod \<bar>y\<bar>"
      by (simp only: abs_dvd_iff)
    then have "y * ((x - x mod \<bar>y\<bar>) div y) = x - x mod \<bar>y\<bar>"
      by simp
    then show ?thesis by simp
  qed
  then show ?thesis
    by (simp add: irem_convention_def int_irem_def)
qed

text \<open>
  C6: when the library's \<^verbatim>\<open>irem\<close> follows the convention of the specification, and
  \<open>a\<close>, \<open>b\<close> are live handles of integers \<open>x\<close> and \<open>y \<noteq> 0\<close>, \<^verbatim>\<open>iquorem\<close> called
  with two live output slots (\<open>q\<close> apart from \<open>a\<close>, \<open>b\<close> and \<open>res\<close>) returns
  \<^verbatim>\<open>NULL\<close> and leaves in \<open>q\<close> an integer \<open>quo\<close> and in \<open>res\<close> an integer \<open>rem\<close>
  with \<open>x = y * quo + rem\<close> and \<open>0 \<le> rem < |y|\<close>.
\<close>

theorem iquorem_quotient_remainder:
  assumes "irem_convention giac_irem as_int"
    and "cell h a = Some ga" and "cell h b = Some gb"
    and "cell h q = Some gq" and "cell h res = Some old"
    and "q \<noteq> a" and "q \<noteq> b" and "q \<noteq> res"
    and "as_int ga = Some x" and "as_int gb = Some y" and "y \<noteq> 0"
  shows "\<exists>h' gquo grem quo rem.
           giacrs_gen_iquorem giac_irem a b q res h = (Returns None, h') \<and>
           cell h' q = Some gquo \<and> cell h' res = Some grem \<and>
           as_int gquo = Some quo \<and> as_int grem = Some rem \<and>
           x = y * quo + rem \<and> 0 \<le> rem \<and> rem < \<bar>y\<bar>"
proof -
  obtain r q' rem quo where lib: "giac_irem ga gb gq = (Inr r, q')"
    and vals: "as_int r = Some rem" "as_int q' = Some quo"
    and arith: "x = y * quo + rem" "0 \<le> rem" "rem < \<bar>y\<bar>"
    using assms(1,9,10,11) unfolding irem_convention_def by blast
  have call: "giacrs_gen_iquorem giac_irem a b q res h =
                (Returns None, h[q := Some q', res := Some r])"
    using iquorem_live [OF assms(2,3,4,5), of giac_irem] lib by simp
  have "cell (h[q := Some q']) res = Some old"
    using assms(4,5,8) by (simp add: cell_update_live)
  then have "cell (h[q := Some q', res := Some r]) res = Some r"
    and "cell (h[q := Some q', res := Some r]) q = Some q'"
    using assms(4,8) by (simp_all add: cell_update_live)
  then show ?thesis
    using call vals arith by blast
qed

text \<open>The theorem on \<open>-7\<close> and \<open>2\<close>: quotient \<open>-4\<close>, remainder \<open>1\<close>.\<close>

theorem iquorem_quotient_remainder_witness:
  "irem_convention int_irem Some \<and>
   giacrs_gen_iquorem int_irem 0 1 2 3 [Some (- 7), Some 2, Some 0, Some 0] =
     (Returns None, [Some (- 7), Some 2, Some (- 4), Some 1]) \<and>
   (- 7 :: int) = 2 * (- 4) + 1"
  using iquorem_quotient_remainder
          [OF int_irem_convention, of "[Some (- 7), Some 2, Some 0, Some 0]" 0 "- 7" 1 2 2 0 3 0 "- 7" 2]
        int_irem_convention
  by (simp add: cell_def giacrs_gen_iquorem_def SAFE_CALL_def SAFE_VOID_CALL_def deref_def
        assign_gen_def int_irem_def)

text \<open>
  C10: for live handles, \<^verbatim>\<open>irem(a, b, res)\<close> returns what
  \<^verbatim>\<open>iquorem(a, b, q, res)\<close> returns when \<open>q\<close> is a slot of its own that holds a
  default-constructed value, and leaves the same value in \<open>res\<close>; the two final
  stores agree everywhere but at \<open>q\<close>, where \<^verbatim>\<open>iquorem\<close> leaves the quotient and
  \<^verbatim>\<open>irem\<close> leaves what was there. When the library returns a remainder, both
  return \<^verbatim>\<open>NULL\<close> and \<open>res\<close> holds that remainder.
\<close>

theorem irem_is_iquorem_remainder:
  assumes "cell h a = Some x" and "cell h b = Some y" and "cell h res = Some old"
    and "cell h q = Some gen0" and "q \<noteq> a" and "q \<noteq> b" and "q \<noteq> res"
  shows "fst (giacrs_gen_irem giac_irem gen0 a b res h) =
           fst (giacrs_gen_iquorem giac_irem a b q res h) \<and>
         cell (snd (giacrs_gen_irem giac_irem gen0 a b res h)) res =
           cell (snd (giacrs_gen_iquorem giac_irem a b q res h)) res \<and>
         (\<forall>p. p \<noteq> q \<longrightarrow>
            cell (snd (giacrs_gen_irem giac_irem gen0 a b res h)) p =
              cell (snd (giacrs_gen_iquorem giac_irem a b q res h)) p) \<and>
         cell (snd (giacrs_gen_irem giac_irem gen0 a b res h)) q = Some gen0 \<and>
         (\<forall>v z'. giac_irem x y gen0 = (Inr v, z') \<longrightarrow>
            giacrs_gen_irem giac_irem gen0 a b res h =
              (Returns None, snd (giacrs_gen_irem giac_irem gen0 a b res h)) \<and>
            cell (snd (giacrs_gen_irem giac_irem gen0 a b res h)) res = Some v \<and>
            cell (snd (giacrs_gen_iquorem giac_irem a b q res h)) q = Some z')"
proof -
  define t where "t = fst (local_gen gen0 [a, b, res] h)"
  define h1 where "h1 = snd (local_gen gen0 [a, b, res] h)"
  have new: "local_gen gen0 [a, b, res] h = (t, h1)"
    by (simp add: t_def h1_def)
  have t_free: "cell h t = None"
    using local_gen_past_store [of h gen0 "[a, b, res]"] by (simp add: t_def cell_def)
  have apart: "t \<noteq> a" "t \<noteq> b" "t \<noteq> res" "t \<noteq> q"
    using assms(1-4) t_free by auto
  have h1_cell: "cell h1 p = (if p = t then Some gen0 else cell h p)" for p
    by (simp add: h1_def t_def cell_local_gen)
  have live1: "cell h1 a = Some x" "cell h1 b = Some y" "cell h1 t = Some gen0"
    "cell h1 res = Some old"
    using apart assms(1-3) by (simp_all add: h1_cell)
  obtain r z' where lib: "giac_irem x y gen0 = (r, z')"
    by (cases "giac_irem x y gen0") auto
  note inner = iquorem_live [OF live1, of giac_irem]
  note outer = iquorem_live [OF assms(1,2,4,3), of giac_irem]
  have irem: "giacrs_gen_irem giac_irem gen0 a b res h =
                (fst (giacrs_gen_iquorem giac_irem a b t res h1),
                 (snd (giacrs_gen_iquorem giac_irem a b t res h1))[t := None])"
    by (simp add: giacrs_gen_irem_def new split: prod.splits)
  have t_live: "cell (h1[t := Some z']) res = Some old" "cell (h1[t := Some z']) t = Some z'"
    using live1 apart by (simp_all add: cell_update_live)
  have q_live: "cell (h[q := Some z']) res = Some old" "cell (h[q := Some z']) q = Some z'"
    using assms apart by (simp_all add: cell_update_live)
  show ?thesis
  proof (cases r)
    case (Inr v)
    have i: "giacrs_gen_iquorem giac_irem a b t res h1 =
               (Returns None, h1[t := Some z', res := Some v])"
      using inner lib Inr by simp
    have o: "giacrs_gen_iquorem giac_irem a b q res h =
               (Returns None, h[q := Some z', res := Some v])"
      using outer lib Inr by simp
    have cells: "cell ((h1[t := Some z', res := Some v])[t := None]) p =
                   (if p = t then None else if p = res then Some v else cell h p)" for p
      using t_live live1 apart
      by (simp add: cell_update_None cell_update_live h1_cell)
    have cells': "cell (h[q := Some z', res := Some v]) p =
                   (if p = res then Some v else if p = q then Some z' else cell h p)" for p
      using q_live assms apart by (simp add: cell_update_live)
    show ?thesis
      using lib Inr apart assms(4,7) t_free
      by (simp add: irem i o cells cells')
  next
    case (Inl e)
    show ?thesis
    proof (cases e)
      case (Runtime_error m)
      have i: "giacrs_gen_iquorem giac_irem a b t res h1 =
                 (Returns (Some (strcpy m)), h1[t := Some z'])"
        using inner lib Inl Runtime_error by simp
      have o: "giacrs_gen_iquorem giac_irem a b q res h =
                 (Returns (Some (strcpy m)), h[q := Some z'])"
        using outer lib Inl Runtime_error by simp
      have cells: "cell (h1[t := None]) p = (if p = t then None else cell h p)" for p
        using t_free by (simp add: cell_update_None h1_cell)
      have cells': "cell (h[q := Some z']) p = (if p = q then Some z' else cell h p)" for p
        using assms(4) by (simp add: cell_update_live)
      show ?thesis
        using lib Inl apart assms(3,4,7) t_free
        by (simp add: irem i o cells cells')
    next
      case (Other_exception m)
      have i: "giacrs_gen_iquorem giac_irem a b t res h1 =
                 (Throws (Other_exception m), h1[t := Some z'])"
        using inner lib Inl Other_exception by simp
      have o: "giacrs_gen_iquorem giac_irem a b q res h =
                 (Throws (Other_exception m), h[q := Some z'])"
        using outer lib Inl Other_exception by simp
      have cells: "cell (h1[t := None]) p = (if p = t then None else cell h p)" for p
        using t_free by (simp add: cell_update_None h1_cell)
      have cells': "cell (h[q := Some z']) p = (if p = q then Some z' else cell h p)" for p
        using assms(4) by (simp add: cell_update_live)
      show ?thesis
        using lib Inl apart assms(3,4,7) t_free
        by (simp add: irem i o cells cells')
    qed
  qed
qed

text \<open>The theorem on 17 and 5, and on a division by zero.\<close>

theorem irem_is_iquorem_remainder_witness:
  "giacrs_gen_irem int_irem 0 0 1 2 [Some 17, Some 5, Some 0, Some 0] =
     (Returns None, [Some 17, Some 5, Some 2, Some 0, None]) \<and>
   giacrs_gen_iquorem int_irem 0 1 3 2 [Some 17, Some 5, Some 0, Some 0] =
     (Returns None, [Some 17, Some 5, Some 2, Some 3]) \<and>
   giacrs_gen_irem int_irem 0 0 1 2 [Some 17, Some 0, Some 9, Some 0] =
     (Returns (Some ''Division by 0''), [Some 17, Some 0, Some 9, Some 0, None]) \<and>
   giacrs_gen_iquorem int_irem 0 1 3 2 [Some 17, Some 0, Some 9, Some 0] =
     (Returns (Some ''Division by 0''), [Some 17, Some 0, Some 9, Some 0])"
  using irem_is_iquorem_remainder
          [of "[Some 17, Some 5, Some 0, Some 0]" 0 17 1 5 2 0 3 0 int_irem]
        irem_is_iquorem_remainder
          [of "[Some 17, Some 0, Some 9, Some 0]" 0 17 1 0 2 9 3 0 int_irem]
  by (simp add: cell_def giacrs_gen_irem_def giacrs_gen_iquorem_def local_gen_def
        SAFE_CALL_def SAFE_VOID_CALL_def deref_def assign_gen_def int_irem_def strcpy_def)

section \<open>gcd and lcm (C7)\<close>

lemma int_gcd_lcm_convention: "gcd_lcm_convention int_gcd int_lcm Some"
  by (simp add: gcd_lcm_convention_def int_gcd_def int_lcm_def)

lemma gcd_entry_live:
  assumes "cell h a = Some x" and "cell h b = Some y" and "cell h res = Some old"
    and "giac_gcd x y ctx = Inr v"
  shows "giacrs_gen_gcd giac_gcd a b res ctx h = (Returns None, h[res := Some v])"
  using assms by (simp add: giacrs_gen_gcd_def SAFE_CALL_assign_reading deref_live)

lemma lcm_entry_live:
  assumes "cell h a = Some x" and "cell h b = Some y" and "cell h res = Some old"
    and "giac_lcm x y = Inr v"
  shows "giacrs_gen_lcm giac_lcm a b res h = (Returns None, h[res := Some v])"
  using assms by (simp add: giacrs_gen_lcm_def SAFE_CALL_assign_reading deref_live)

text \<open>
  C7: when the library's \<^verbatim>\<open>gcd\<close> and \<^verbatim>\<open>lcm\<close> return the greatest common divisor
  and the least common multiple, and \<open>a\<close>, \<open>b\<close> are live handles of nonzero integers
  \<open>x\<close> and \<open>y\<close>, then \<^verbatim>\<open>gcd(a, b)\<close> into one slot followed by \<^verbatim>\<open>lcm(a, b)\<close> into
  another (the first apart from \<open>a\<close> and \<open>b\<close>) both return \<^verbatim>\<open>NULL\<close>, and the two
  slots hold integers whose product is \<open>|x * y|\<close>.
\<close>

theorem gcd_times_lcm:
  assumes "gcd_lcm_convention giac_gcd giac_lcm as_int"
    and "cell h a = Some ga" and "cell h b = Some gb"
    and "cell h rg = Some old_g" and "cell h rl = Some old_l"
    and "rg \<noteq> a" and "rg \<noteq> b" and "rg \<noteq> rl"
    and "as_int ga = Some x" and "as_int gb = Some y" and "x \<noteq> 0" and "y \<noteq> 0"
  shows "\<exists>h1 h2 g l gv lv.
           giacrs_gen_gcd giac_gcd a b rg ctx h = (Returns None, h1) \<and>
           giacrs_gen_lcm giac_lcm a b rl h1 = (Returns None, h2) \<and>
           cell h2 rg = Some g \<and> cell h2 rl = Some l \<and>
           as_int g = Some gv \<and> as_int l = Some lv \<and> gv * lv = \<bar>x * y\<bar>"
proof -
  obtain g l where lib: "giac_gcd ga gb ctx = Inr g" "giac_lcm ga gb = Inr l"
    and vals: "as_int g = Some (gcd x y)" "as_int l = Some (lcm x y)"
    using assms(1,9,10,11,12) unfolding gcd_lcm_convention_def by blast
  define h1 where "h1 = h[rg := Some g]"
  define h2 where "h2 = h1[rl := Some l]"
  have first: "giacrs_gen_gcd giac_gcd a b rg ctx h = (Returns None, h1)"
    unfolding h1_def using assms(2,3,4) lib(1) by (rule gcd_entry_live)
  have h1_cells: "cell h1 a = Some ga" "cell h1 b = Some gb" "cell h1 rl = Some old_l"
    "cell h1 rg = Some g"
    using assms(2-8) by (simp_all add: h1_def cell_update_live)
  have second: "giacrs_gen_lcm giac_lcm a b rl h1 = (Returns None, h2)"
    unfolding h2_def using h1_cells(1,2,3) lib(2) by (rule lcm_entry_live)
  have h2_cells: "cell h2 rg = Some g" "cell h2 rl = Some l"
    using h1_cells assms(8) by (simp_all add: h2_def cell_update_live)
  have "gcd x y * lcm x y = \<bar>x * y\<bar>"
    by (simp add: abs_mult)
  then show ?thesis
    using first second h2_cells vals by blast
qed

text \<open>The theorem on 12 and \<open>-18\<close>: 6 and 36.\<close>

lemma gcd_12_18: "gcd (12::int) 18 = 6"
  by code_simp

lemma lcm_12_18: "lcm (12::int) 18 = 36"
  by code_simp

theorem gcd_times_lcm_witness:
  "gcd_lcm_convention int_gcd int_lcm Some \<and>
   giacrs_gen_gcd int_gcd 0 1 2 () [Some 12, Some (- 18), Some 0, Some 0] =
     (Returns None, [Some 12, Some (- 18), Some 6, Some 0]) \<and>
   giacrs_gen_lcm int_lcm 0 1 3 [Some 12, Some (- 18), Some 6, Some 0] =
     (Returns None, [Some 12, Some (- 18), Some 6, Some 36]) \<and>
   (6 :: int) * 36 = \<bar>12 * (- 18)\<bar>"
  using gcd_times_lcm
          [OF int_gcd_lcm_convention, of "[Some 12, Some (- 18), Some 0, Some 0]"
             0 12 1 "- 18" 2 0 3 0 12 "- 18" "()"]
        int_gcd_lcm_convention
  by (simp add: cell_def giacrs_gen_gcd_def giacrs_gen_lcm_def SAFE_CALL_assign_reading
        reading_def deref_def int_gcd_def int_lcm_def gcd_12_18 lcm_12_18)

section \<open>Factorial and its digits (C8)\<close>

lemma digit_char_not_NUL: "d < 10 \<Longrightarrow> digit_char d \<noteq> CHR 0x00"
proof -
  assume "d < 10"
  then have "d \<in> {0, 1, 2, 3, 4, 5, 6, 7, 8, 9}"
    by auto
  then show ?thesis
    by (auto simp: digit_char_def)
qed

lemma decimal_nat_no_NUL: "CHR 0x00 \<notin> set (decimal_nat n)"
proof (induction n rule: decimal_nat.induct)
  case (1 n)
  show ?case
  proof (cases "n < 10")
    case True
    then show ?thesis
      using digit_char_not_NUL [of n] by (subst decimal_nat.simps) auto
  next
    case False
    have "n mod 10 < 10" by simp
    then have "digit_char (n mod 10) \<noteq> CHR 0x00"
      by (rule digit_char_not_NUL)
    then show ?thesis
      using False "1.IH" by (subst decimal_nat.simps) auto
  qed
qed

lemma strcpy_decimal: "strcpy (decimal k) = decimal k"
proof -
  have "CHR 0x00 \<notin> set (decimal k)"
    by (simp add: decimal_def decimal_nat_no_NUL)
  then show ?thesis
    unfolding strcpy_def by (intro takeWhile_eq_all_conv [THEN iffD2]) auto
qed

lemma int_factorial_print_convention:
  "factorial_print_convention int_factorial int_print Some"
  by (simp add: factorial_print_convention_def int_factorial_def int_print_def)

text \<open>
  C8: when the library's \<^verbatim>\<open>factorial\<close> returns the integer \<open>n!\<close> and its
  \<^verbatim>\<open>print\<close> renders an integer as its decimal digits, then for every
  \<^verbatim>\<open>unsigned long\<close> \<open>n\<close> \<^verbatim>\<open>from_factorial(n)\<close> returns a new handle whose object
  holds \<open>n!\<close> at once, and \<^verbatim>\<open>to_string\<close> of that handle is exactly the decimal
  digits of \<open>n!\<close> (the copy through \<^verbatim>\<open>strcpy\<close> loses nothing, since no digit is a
  NUL byte).
\<close>

theorem factorial_to_string_digits:
  assumes "factorial_print_convention giac_factorial giac_print as_int"
  shows "\<exists>p h1 g. giacrs_gen_factorial giac_factorial i h = (Returns p, h1) \<and>
           cell h1 p = Some g \<and> as_int g = Some (fact (unat i)) \<and>
           giacrs_gen_to_str giac_print p h1 = Returns (decimal (fact (unat i)))"
proof -
  obtain g where lib: "giac_factorial i = Inr g" and val: "as_int g = Some (fact (unat i))"
    using assms unfolding factorial_print_convention_def by blast
  have pr: "giac_print g = Inr (decimal (fact (unat i)))"
    using assms val unfolding factorial_print_convention_def by blast
  define p where "p = fresh h"
  define h1 where "h1 = snd (new_gen g h)"
  have call: "giacrs_gen_factorial giac_factorial i h = (Returns p, h1)"
    by (simp add: giacrs_gen_factorial_def lib p_def h1_def new_gen_def Let_def)
  have at_p: "cell h1 p = Some g"
    by (simp add: h1_def p_def cell_new_gen)
  have "giacrs_gen_to_str giac_print p h1 = Returns (decimal (fact (unat i)))"
    by (simp add: giacrs_gen_to_str_def deref_live [OF at_p] pr string_to_c_def strcpy_decimal)
  then show ?thesis
    using call at_p val by blast
qed

text \<open>The theorem on 5: the digits of 120.\<close>

theorem factorial_to_string_digits_witness:
  "factorial_print_convention int_factorial int_print Some \<and>
   giacrs_gen_factorial int_factorial 5 [] = (Returns 0, [Some 120]) \<and>
   giacrs_gen_to_str int_print 0 [Some 120] = Returns ''120''"
  using factorial_to_string_digits [OF int_factorial_print_convention, of 5 "[]"]
        int_factorial_print_convention
  by (simp add: giacrs_gen_factorial_def int_factorial_def new_gen_def fact_numeral
        giacrs_gen_to_str_def deref_def cell_def int_print_def string_to_c_def strcpy_def
        decimal_def decimal_nat.simps digit_char_def)

end
